theory Spec2Isabelle
  imports Main "HOL-Library.AList" "HOL-Library.Sublist"
begin

section \<open>The answer-private plugin: data model\<close>

text \<open>
  The plugin is a gin middleware that buffers the response of two read endpoints of the
  Answer API, decodes the response envelope, compares the owners found in the payload
  with the caller, and either forwards the response as it was, replaces it by a fixed
  403 envelope (answer detail), or narrows the list it carries (answer page).

  Go's \<open>[]byte\<close> and \<open>string\<close> are both byte sequences; they are modelled as
  \<^typ>\<open>string\<close> (a list of 8-bit characters). A \<open>nil\<close> byte slice is the empty list:
  the code only ever takes its length or writes it out.
\<close>

subsection \<open>Constants\<close>

definition pathAnswerInfo :: string where
  "pathAnswerInfo = ''/answer/api/v1/answer/info''"

definition pathAnswerList :: string where
  "pathAnswerList = ''/answer/api/v1/answer/page''"

definition StatusOK :: int where
  "StatusOK = 200"

definition StatusForbidden :: int where
  "StatusForbidden = 403"

subsection \<open>Configuration and plugin value\<close>

record Config =
  Enabled :: bool

text \<open>The field \<open>Config *Config\<close> of the plugin is a pointer: \<open>None\<close> is \<open>nil\<close>.\<close>

record AnswerPrivate =
  Config :: "Config option"

subsection \<open>Values decoded by encoding/json\<close>

text \<open>
  What \<open>json.Unmarshal\<close> stores into a \<open>map[string]any\<close>: \<open>nil\<close>, \<open>bool\<close>,
  \<open>float64\<close>, \<open>string\<close>, \<open>[]any\<close> and \<open>map[string]any\<close>. The list filter adds an
  \<open>int\<close> (the new count) before it encodes the map again. The code never looks inside
  a \<open>float64\<close>, so its representation is the type parameter \<open>'f\<close>.

  A Go map is modelled as an association list read with \<^const>\<open>map_of\<close> and written
  with \<^const>\<open>AList.update\<close>; the \<open>nil\<close> map that decoding \<open>null\<close> yields reads like the
  empty map and is the empty list (the code never writes to it).
\<close>

datatype 'f any =
    ANil
  | ABool bool
  | AFloat64 'f
  | AString string
  | ASlice "'f any list"
  | AMap "(string \<times> 'f any) list"
  | AInt int

record responseEnvelope =
  Code :: int
  Reason :: string
  Message :: string
  Data :: string

subsection \<open>The encoding/json calls the plugin makes\<close>

text \<open>
  The standard library is not part of the repository; each call the plugin makes is a
  field of the record below, and every definition of the plugin takes that record as its
  first argument. \<open>None\<close> is a call that returned an error.

  \<^item> \<open>unmarshal_envelope\<close>: \<open>json.Unmarshal(body, &envelope)\<close> on a zero envelope;
  \<^item> \<open>unmarshal_payload\<close>: \<open>json.Unmarshal(envelope.Data, &payload)\<close> with
    \<open>payload map[string]any\<close>;
  \<^item> \<open>marshal_payload\<close>: \<open>json.Marshal(payload)\<close>;
  \<^item> \<open>marshal_envelope\<close>: \<open>json.Marshal\<close> of a \<open>responseEnvelope\<close>;
  \<^item> \<open>unmarshal_config\<close>: \<open>json.Unmarshal(config, c)\<close> with \<open>c *Config\<close>.

  \<open>json.Unmarshal\<close> writes into its target and returns an error. For the one-field
  struct \<open>Config\<close> its outcome is a \<open>config_outcome\<close>: the input is not valid JSON and
  nothing is stored (the library checks validity before it decodes), or the input is
  valid and the call stores a value into \<open>Enabled\<close> or leaves it alone (no member
  named \<open>enabled\<close>, a \<open>null\<close>, or a member of another type), possibly returning a type
  error.
\<close>

datatype config_outcome =
    SyntaxError
  | Decoded "bool option" bool

record 'f encoding_json =
  unmarshal_envelope :: "string \<Rightarrow> responseEnvelope option"
  unmarshal_payload :: "string \<Rightarrow> (string \<times> 'f any) list option"
  marshal_payload :: "(string \<times> 'f any) list \<Rightarrow> string option"
  marshal_envelope :: "responseEnvelope \<Rightarrow> string option"
  unmarshal_config :: "string \<Rightarrow> config_outcome"

section \<open>Configuration\<close>

text \<open>
  \<open>ConfigReceiver\<close> starts from \<open>&Config{Enabled: true}\<close>, lets \<open>json.Unmarshal\<close>
  write into it, discards the error and stores the pointer. The test \<open>c == nil\<close> of the
  source can never hold (the call cannot change the local pointer), so it has no branch
  here. The result is the updated plugin value and the returned error (\<open>None\<close> is
  \<open>nil\<close>).
\<close>

datatype error = Error string

definition ConfigReceiver ::
  "'f encoding_json \<Rightarrow> string \<Rightarrow> AnswerPrivate \<Rightarrow> AnswerPrivate \<times> error option" where
  "ConfigReceiver lib config a =
     (let c = \<lparr>Enabled = True\<rparr>;
          c = (case unmarshal_config lib config of
                 SyntaxError \<Rightarrow> c
               | Decoded None _ \<Rightarrow> c
               | Decoded (Some b) _ \<Rightarrow> c\<lparr>Enabled := b\<rparr>)
      in (a\<lparr>Config := Some c\<rparr>, None))"

section \<open>Ownership extraction\<close>

text \<open>
  A type assertion \<open>m[k].(map[string]any)\<close> succeeds exactly when the key is present
  with an object value; \<open>m[k].(string)\<close> likewise for strings, and a failed assertion
  with the blank identifier leaves the empty string.
\<close>

definition extractUserIDFromInfo :: "(string \<times> 'f any) list \<Rightarrow> string" where
  "extractUserIDFromInfo info =
     (case map_of info ''user_info'' of
        Some (AMap userInfo) \<Rightarrow>
          (case map_of userInfo ''id'' of
             Some (AString userID) \<Rightarrow> userID
           | _ \<Rightarrow> [])
      | _ \<Rightarrow> [])"

definition extractAnswerOwnerID :: "(string \<times> 'f any) list \<Rightarrow> string" where
  "extractAnswerOwnerID payload =
     (case map_of payload ''info'' of
        Some (AMap info) \<Rightarrow> extractUserIDFromInfo info
      | _ \<Rightarrow> extractUserIDFromInfo payload)"

definition extractQuestionOwnerID :: "(string \<times> 'f any) list \<Rightarrow> string" where
  "extractQuestionOwnerID payload =
     (case map_of payload ''question'' of
        Some (AMap question) \<Rightarrow> extractUserIDFromInfo question
      | _ \<Rightarrow>
          (case map_of payload ''question_info'' of
             Some (AMap questionInfo) \<Rightarrow> extractUserIDFromInfo questionInfo
           | _ \<Rightarrow> []))"

section \<open>The two filter policies\<close>

text \<open>
  Every filter returns \<open>(body, status, changed)\<close>; the source's \<open>return nil, 0, false\<close>
  is \<^term>\<open>([], 0, False)\<close>.
\<close>

definition forbidden :: responseEnvelope where
  "forbidden =
     \<lparr>Code = StatusForbidden,
      Reason = ''answer_private_forbidden'',
      Message = ''answer is private'',
      Data = ''null''\<rparr>"

definition filterAnswerInfo ::
  "'f encoding_json \<Rightarrow> responseEnvelope \<Rightarrow> string \<Rightarrow> string \<times> int \<times> bool" where
  "filterAnswerInfo lib envelope userID =
     (case unmarshal_payload lib (Data envelope) of
        None \<Rightarrow> ([], 0, False)
      | Some payload \<Rightarrow>
          (let answerOwnerID = extractAnswerOwnerID payload;
               questionOwnerID = extractQuestionOwnerID payload
           in if answerOwnerID = [] \<and> questionOwnerID = [] then ([], 0, False)
              else if answerOwnerID = userID \<or> questionOwnerID = userID then ([], 0, False)
              else (case marshal_envelope lib forbidden of
                      None \<Rightarrow> ([], 0, False)
                    | Some payloadBytes \<Rightarrow> (payloadBytes, StatusForbidden, True))))"

text \<open>
  The loop of \<open>filterAnswerList\<close> over the items, with the slice \<open>filtered\<close> it appends
  to as accumulator.
\<close>

fun filterItems :: "string \<Rightarrow> 'f any list \<Rightarrow> 'f any list \<Rightarrow> 'f any list" where
  "filterItems userID [] filtered = filtered"
| "filterItems userID (item # rest) filtered =
     (case item of
        AMap entry \<Rightarrow>
          (let answerOwnerID = extractAnswerOwnerID entry;
               questionOwnerID = extractQuestionOwnerID entry
           in if answerOwnerID = [] \<and> questionOwnerID = [] then filterItems userID rest filtered
              else if answerOwnerID = userID \<or> questionOwnerID = userID
                then filterItems userID rest (filtered @ [AMap entry])
                else filterItems userID rest filtered)
      | _ \<Rightarrow> filterItems userID rest filtered)"

definition filterAnswerList ::
  "'f encoding_json \<Rightarrow> responseEnvelope \<Rightarrow> string \<Rightarrow> string \<times> int \<times> bool" where
  "filterAnswerList lib envelope userID =
     (case unmarshal_payload lib (Data envelope) of
        None \<Rightarrow> ([], 0, False)
      | Some payload \<Rightarrow>
          (case map_of payload ''list'' of
             Some (ASlice list) \<Rightarrow>
               (let filtered = filterItems userID list [];
                    payload = AList.update ''list'' (ASlice filtered) payload;
                    payload = AList.update ''count'' (AInt (int (length filtered))) payload
                in case marshal_payload lib payload of
                     None \<Rightarrow> ([], 0, False)
                   | Some payloadBytes \<Rightarrow>
                       (case marshal_envelope lib (envelope\<lparr>Data := payloadBytes\<rparr>) of
                          None \<Rightarrow> ([], 0, False)
                        | Some body \<Rightarrow> (body, 0, True)))
           | _ \<Rightarrow> ([], 0, False)))"

definition filterAnswerResponse ::
  "'f encoding_json \<Rightarrow> string \<Rightarrow> string \<Rightarrow> string \<Rightarrow> string \<times> int \<times> bool" where
  "filterAnswerResponse lib path userID body =
     (if length body = 0 then ([], 0, False)
      else case unmarshal_envelope lib body of
        None \<Rightarrow> ([], 0, False)
      | Some envelope \<Rightarrow>
          if length (Data envelope) = 0 \<or> Data envelope = ''null'' then ([], 0, False)
          else if path = pathAnswerInfo then filterAnswerInfo lib envelope userID
          else if path = pathAnswerList then filterAnswerList lib envelope userID
          else ([], 0, False))"

section \<open>Response capture\<close>

text \<open>
  The calls a handler makes on \<open>ctx.Writer\<close>, restricted to the three methods the
  recorder defines itself (\<open>WriteHeader\<close>, \<open>WriteHeaderNow\<close>, \<open>Write\<close>). The
  downstream chain run by \<open>ctx.Next()\<close> is the list of calls it makes; the real
  writer is observed as the list of calls that reach it. The recorder's embedded
  \<open>gin.ResponseWriter\<close> is not a field of the record: none of the three methods
  touches it.
\<close>

datatype call =
    WriteHeader int
  | WriteHeaderNow
  | Write string

record responseRecorder =
  status :: int
  body :: string

definition newResponseRecorder :: responseRecorder where
  "newResponseRecorder = \<lparr>status = 0, body = []\<rparr>"

fun recorder_call :: "responseRecorder \<Rightarrow> call \<Rightarrow> responseRecorder" where
  "recorder_call r (WriteHeader statusCode) = r\<lparr>status := statusCode\<rparr>"
| "recorder_call r WriteHeaderNow = (if status r = 0 then r\<lparr>status := StatusOK\<rparr> else r)"
| "recorder_call r (Write data) = r\<lparr>body := body r @ data\<rparr>"

text \<open>The recorder after \<open>ctx.Next()\<close> has run the handler against it.\<close>

definition capture :: "call list \<Rightarrow> responseRecorder" where
  "capture handler = foldl recorder_call newResponseRecorder handler"

definition statusCode :: "responseRecorder \<Rightarrow> int" where
  "statusCode r = (if status r \<noteq> 0 then status r else StatusOK)"

definition writeResponse :: "int \<Rightarrow> string \<Rightarrow> call list" where
  "writeResponse st b = [WriteHeader st, Write b]"

section \<open>Caller identity\<close>

text \<open>
  \<open>userIDFromContext\<close> reads the value stored under \<open>ctxUuidKey\<close> by reflection. What
  reflection can tell apart: the untyped \<open>nil\<close>, a value, and a pointer (possibly
  \<open>nil\<close>) that \<open>reflectValue\<close> follows once; the value reached is a struct with named
  fields or something else, and a field is of kind string or not.
  \<open>FieldByName\<close> panics on a value that is not a struct.
\<close>

datatype field =
    StringField string
  | OtherField

datatype rvalue =
    Struct "(string \<times> field) list"
  | NonStruct

datatype iface =
    NilInterface
  | Direct rvalue
  | Pointer "rvalue option"

datatype panic = Panic

record Context =
  Path :: string
  Keys :: "string \<Rightarrow> iface option"

text \<open>\<open>None\<close> is the zero \<open>reflect.Value\<close>, for which \<open>IsValid\<close> is false.\<close>

fun reflectValue :: "iface \<Rightarrow> rvalue option" where
  "reflectValue NilInterface = None"
| "reflectValue (Direct v) = Some v"
| "reflectValue (Pointer p) = p"

definition userIDFromContext :: "Context \<Rightarrow> panic + string" where
  "userIDFromContext ctx =
     (case Keys ctx ''ctxUuidKey'' of
        None \<Rightarrow> Inr []
      | Some NilInterface \<Rightarrow> Inr []
      | Some userInfo \<Rightarrow>
          (case reflectValue userInfo of
             None \<Rightarrow> Inr []
           | Some NonStruct \<Rightarrow> Inl Panic
           | Some (Struct fs) \<Rightarrow>
               (case map_of fs ''UserID'' of
                  Some (StringField s) \<Rightarrow> Inr s
                | _ \<Rightarrow> Inr [])))"

section \<open>The middleware\<close>

text \<open>
  \<open>answerVisibilityMiddleware\<close> for one request: \<open>handler\<close> is what \<open>ctx.Next()\<close>
  writes, and the result is the list of calls made on the real writer (or the panic of
  the identity lookup). On the three early returns the handler writes to the real writer
  itself; otherwise it writes into the recorder and the middleware makes the only calls.
\<close>

definition answerVisibilityMiddleware ::
  "'f encoding_json \<Rightarrow> AnswerPrivate \<Rightarrow> Context \<Rightarrow> call list \<Rightarrow> panic + call list" where
  "answerVisibilityMiddleware lib a ctx handler =
     (if (case Config a of None \<Rightarrow> True | Some c \<Rightarrow> \<not> Enabled c) then Inr handler
      else if Path ctx \<noteq> pathAnswerInfo \<and> Path ctx \<noteq> pathAnswerList then Inr handler
      else case userIDFromContext ctx of
        Inl p \<Rightarrow> Inl p
      | Inr userID \<Rightarrow>
          if userID = [] then Inr handler
          else
            (let recorder = capture handler;
                 st = statusCode recorder;
                 b = body recorder
             in case filterAnswerResponse lib (Path ctx) userID b of
                  (filtered, newStatus, changed) \<Rightarrow>
                    if \<not> changed then Inr (writeResponse st b)
                    else Inr (writeResponse (if newStatus \<noteq> 0 then newStatus else st) filtered)))"

section \<open>Notions of the specification\<close>

text \<open>
  The middleware engages for a request when none of its three early returns applies:
  the feature is enabled, the path is one of the two endpoints, and the identity lookup
  yields a non-empty caller identity.
\<close>

definition intercepts :: "AnswerPrivate \<Rightarrow> Context \<Rightarrow> string \<Rightarrow> bool" where
  "intercepts a ctx userID =
     ((case Config a of None \<Rightarrow> False | Some c \<Rightarrow> Enabled c) \<and>
      (Path ctx = pathAnswerInfo \<or> Path ctx = pathAnswerList) \<and>
      userIDFromContext ctx = Inr userID \<and> userID \<noteq> [])"

text \<open>
  The extraction rules in the words of the specification: a node \<open>contains a nested
  object keyed k\<close>, a nested object \<open>has a string-valued key\<close>, and the owner
  \<open>inside x\<close>. They are compared with the source's extractors below.
\<close>

definition nestedObject :: "(string \<times> 'f any) list \<Rightarrow> string \<Rightarrow> (string \<times> 'f any) list option" where
  "nestedObject node key = (case map_of node key of Some (AMap m) \<Rightarrow> Some m | _ \<Rightarrow> None)"

definition stringValue :: "(string \<times> 'f any) list \<Rightarrow> string \<Rightarrow> string option" where
  "stringValue node key = (case map_of node key of Some (AString s) \<Rightarrow> Some s | _ \<Rightarrow> None)"

definition ownerInside :: "(string \<times> 'f any) list \<Rightarrow> string" where
  "ownerInside x =
     (case nestedObject x ''user_info'' of
        None \<Rightarrow> []
      | Some u \<Rightarrow> (case stringValue u ''id'' of None \<Rightarrow> [] | Some s \<Rightarrow> s))"

definition spec_extractAnswerOwner :: "(string \<times> 'f any) list \<Rightarrow> string" where
  "spec_extractAnswerOwner node =
     (case nestedObject node ''info'' of
        Some inner \<Rightarrow> ownerInside inner
      | None \<Rightarrow> ownerInside node)"

definition spec_extractQuestionOwner :: "(string \<times> 'f any) list \<Rightarrow> string" where
  "spec_extractQuestionOwner node =
     (case nestedObject node ''question'' of
        Some q \<Rightarrow> ownerInside q
      | None \<Rightarrow>
          (case nestedObject node ''question_info'' of
             Some q \<Rightarrow> ownerInside q
           | None \<Rightarrow> []))"

text \<open>
  An entry of a page is owned by the caller when it is an object whose answer owner or
  question owner is the caller; it is visible to the caller when, in addition, some owner
  can be extracted from it.
\<close>

definition ownedBy :: "string \<Rightarrow> 'f any \<Rightarrow> bool" where
  "ownedBy userID item =
     (case item of
        AMap entry \<Rightarrow> extractAnswerOwnerID entry = userID \<or> extractQuestionOwnerID entry = userID
      | _ \<Rightarrow> False)"

definition visibleTo :: "string \<Rightarrow> 'f any \<Rightarrow> bool" where
  "visibleTo userID item =
     (case item of
        AMap entry \<Rightarrow>
          (extractAnswerOwnerID entry \<noteq> [] \<or> extractQuestionOwnerID entry \<noteq> []) \<and>
          (extractAnswerOwnerID entry = userID \<or> extractQuestionOwnerID entry = userID)
      | _ \<Rightarrow> False)"

text \<open>The forbidden response of the specification, as bytes.\<close>

definition forbidden_body :: string where
  \<open>forbidden_body =
     ''{"code":403,"reason":"answer_private_forbidden","msg":"answer is private","data":null}''\<close>

text \<open>The data object of a page with its list narrowed to the visible entries.\<close>

definition narrowed :: "string \<Rightarrow> (string \<times> 'f any) list \<Rightarrow> 'f any list \<Rightarrow> (string \<times> 'f any) list" where
  "narrowed userID payload list =
     (let kept = filter (visibleTo userID) list
      in AList.update ''count'' (AInt (int (length kept))) (AList.update ''list'' (ASlice kept) payload))"

section \<open>A JSON library for concrete runs\<close>

text \<open>
  The definitions above and the theorems below are about any library value. This section
  builds one, \<open>reference_json\<close>, so that the plugin can be run on concrete bytes: a
  reader and a writer for JSON text that follow encoding/json in what the plugin can
  observe (members of a struct matched by name without regard to case, a raw message
  given the text of its member, a repeated key keeping its last value, object keys
  written in sorted order, no white space in the output). Numbers are kept as their
  literal text, bytes above 0x7F are copied unchanged, and the escape of a
  surrogate is read as U+FFFD.
\<close>

subsection \<open>Reading\<close>

definition isSpace :: "char \<Rightarrow> bool" where
  "isSpace c = (c = CHR '' '' \<or> c = CHR 0x09 \<or> c = CHR 0x0A \<or> c = CHR 0x0D)"

definition skipSpace :: "string \<Rightarrow> string" where
  "skipSpace s = dropWhile isSpace s"

definition isDigit :: "char \<Rightarrow> bool" where
  "isDigit c = (48 \<le> (of_char c :: nat) \<and> (of_char c :: nat) \<le> 57)"

definition hexVal :: "char \<Rightarrow> nat option" where
  "hexVal c =
     (let n = (of_char c :: nat)
      in if 48 \<le> n \<and> n \<le> 57 then Some (n - 48)
         else if 65 \<le> n \<and> n \<le> 70 then Some (n - 55)
         else if 97 \<le> n \<and> n \<le> 102 then Some (n - 87)
         else None)"

definition hex4 :: "char \<Rightarrow> char \<Rightarrow> char \<Rightarrow> char \<Rightarrow> nat option" where
  "hex4 a b c d =
     (case (hexVal a, hexVal b, hexVal c, hexVal d) of
        (Some w, Some x, Some y, Some z) \<Rightarrow> Some (((w * 16 + x) * 16 + y) * 16 + z)
      | _ \<Rightarrow> None)"

definition utf8 :: "nat \<Rightarrow> string" where
  "utf8 cp =
     (if cp < 0x80 then [char_of cp]
      else if cp < 0x800 then [char_of (0xC0 + cp div 64), char_of (0x80 + cp mod 64)]
      else if cp < 0x10000 then
        [char_of (0xE0 + cp div 4096), char_of (0x80 + cp div 64 mod 64), char_of (0x80 + cp mod 64)]
      else
        [char_of (0xF0 + cp div 262144), char_of (0x80 + cp div 4096 mod 64),
         char_of (0x80 + cp div 64 mod 64), char_of (0x80 + cp mod 64)])"

definition simpleEscape :: "char \<Rightarrow> char option" where
  "simpleEscape e =
     (if e = CHR 0x22 \<or> e = CHR 0x5C \<or> e = CHR ''/'' then Some e
      else if e = CHR ''b'' then Some (CHR 0x08)
      else if e = CHR ''f'' then Some (CHR 0x0C)
      else if e = CHR ''n'' then Some (CHR 0x0A)
      else if e = CHR ''r'' then Some (CHR 0x0D)
      else if e = CHR ''t'' then Some (CHR 0x09)
      else None)"

fun scanString :: "string \<Rightarrow> (string \<times> string) option" where
  "scanString [] = None"
| "scanString (c # cs) =
     (if c = CHR 0x22 then Some ([], cs)
      else if c = CHR 0x5C then
        (case cs of
           [] \<Rightarrow> None
         | e # cs1 \<Rightarrow>
             if e = CHR ''u'' then
               (case cs1 of
                  h1 # h2 # h3 # h4 # cs2 \<Rightarrow>
                    (case hex4 h1 h2 h3 h4 of
                       None \<Rightarrow> None
                     | Some cp \<Rightarrow>
                         (case scanString cs2 of
                            None \<Rightarrow> None
                          | Some (t, r) \<Rightarrow>
                              Some ((if 0xD800 \<le> cp \<and> cp < 0xE000 then utf8 0xFFFD else utf8 cp) @ t, r)))
                | _ \<Rightarrow> None)
             else
               (case simpleEscape e of
                  None \<Rightarrow> None
                | Some x \<Rightarrow>
                    (case scanString cs1 of
                       None \<Rightarrow> None
                     | Some (t, r) \<Rightarrow> Some (x # t, r))))
      else if (of_char c :: nat) < 0x20 then None
      else (case scanString cs of
              None \<Rightarrow> None
            | Some (t, r) \<Rightarrow> Some (c # t, r)))"


fun scanDigits :: "string \<Rightarrow> string \<times> string" where
  "scanDigits [] = ([], [])"
| "scanDigits (c # cs) =
     (if isDigit c then (case scanDigits cs of (ds, r) \<Rightarrow> (c # ds, r)) else ([], c # cs))"

text \<open>The number grammar: \<open>-? (0 | [1-9][0-9]*) (. [0-9]+)? ([eE] [+-]? [0-9]+)?\<close>.\<close>

definition scanInt :: "string \<Rightarrow> (string \<times> string) option" where
  "scanInt s =
     (case s of
        [] \<Rightarrow> None
      | c # cs \<Rightarrow>
          if c = CHR ''0'' then Some ([c], cs)
          else if isDigit c then (case scanDigits cs of (ds, r) \<Rightarrow> Some (c # ds, r))
          else None)"

definition scanFrac :: "string \<Rightarrow> (string \<times> string) option" where
  "scanFrac s =
     (case s of
        c # cs \<Rightarrow>
          if c = CHR ''.'' then
            (case scanDigits cs of (ds, r) \<Rightarrow> if ds = [] then None else Some (c # ds, r))
          else Some ([], s)
      | [] \<Rightarrow> Some ([], s))"

definition scanExp :: "string \<Rightarrow> (string \<times> string) option" where
  "scanExp s =
     (case s of
        c # cs \<Rightarrow>
          if c = CHR ''e'' \<or> c = CHR ''E'' then
            (let (sg, cs1) = (case cs of
                                d # ds \<Rightarrow> if d = CHR ''+'' \<or> d = CHR ''-'' then ([d], ds) else ([], cs)
                              | [] \<Rightarrow> ([], cs))
             in case scanDigits cs1 of (ds, r) \<Rightarrow> if ds = [] then None else Some (c # sg @ ds, r))
          else Some ([], s)
      | [] \<Rightarrow> Some ([], s))"

definition scanNumber :: "string \<Rightarrow> (string \<times> string) option" where
  "scanNumber s =
     (let (sg, s1) = (case s of
                        c # cs \<Rightarrow> if c = CHR ''-'' then ([c], cs) else ([], s)
                      | [] \<Rightarrow> ([], s))
      in case scanInt s1 of
           None \<Rightarrow> None
         | Some (i, s2) \<Rightarrow>
             (case scanFrac s2 of
                None \<Rightarrow> None
              | Some (f, s3) \<Rightarrow>
                  (case scanExp s3 of
                     None \<Rightarrow> None
                   | Some (e, s4) \<Rightarrow> Some (sg @ i @ f @ e, s4))))"

definition scanLiteral :: "string \<Rightarrow> string \<Rightarrow> string option" where
  "scanLiteral lit s = (if take (length lit) s = lit then Some (drop (length lit) s) else None)"

text \<open>
  The reader, on input whose leading white space is gone. The first argument bounds the
  number of nested calls; \<open>parseJSON\<close> starts it high enough for the whole input.
  A number is kept as its literal text (the \<open>float64\<close> stand-in of this codec), and an
  object is built by assigning its members in order, so a repeated key keeps its last
  value.
\<close>

fun parseValue :: "nat \<Rightarrow> string \<Rightarrow> (string any \<times> string) option"
  and parseElements :: "nat \<Rightarrow> string \<Rightarrow> (string any list \<times> string) option"
  and parseMembers :: "nat \<Rightarrow> string \<Rightarrow> ((string \<times> string any) list \<times> string) option" where
  "parseValue 0 s = None"
| "parseValue (Suc n) s =
     (case s of
        [] \<Rightarrow> None
      | c # cs \<Rightarrow>
          if c = CHR ''{'' then
            (case skipSpace cs of
               [] \<Rightarrow> None
             | d # ds \<Rightarrow>
                 if d = CHR ''}'' then Some (AMap [], ds)
                 else (case parseMembers n (d # ds) of
                         None \<Rightarrow> None
                       | Some (ms, r) \<Rightarrow> Some (AMap (foldl (\<lambda>m kv. AList.update (fst kv) (snd kv) m) [] ms), r)))
          else if c = CHR ''['' then
            (case skipSpace cs of
               [] \<Rightarrow> None
             | d # ds \<Rightarrow>
                 if d = CHR '']'' then Some (ASlice [], ds)
                 else (case parseElements n (d # ds) of
                         None \<Rightarrow> None
                       | Some (vs, r) \<Rightarrow> Some (ASlice vs, r)))
          else if c = CHR 0x22 then
            (case scanString cs of
               None \<Rightarrow> None
             | Some (t, r) \<Rightarrow> Some (AString t, r))
          else if c = CHR ''t'' then map_option (Pair (ABool True)) (scanLiteral ''true'' s)
          else if c = CHR ''f'' then map_option (Pair (ABool False)) (scanLiteral ''false'' s)
          else if c = CHR ''n'' then map_option (Pair ANil) (scanLiteral ''null'' s)
          else (case scanNumber s of
                  None \<Rightarrow> None
                | Some (lit, r) \<Rightarrow> Some (AFloat64 lit, r)))"
| "parseElements 0 s = None"
| "parseElements (Suc n) s =
     (case parseValue n s of
        None \<Rightarrow> None
      | Some (v, r) \<Rightarrow>
          (case skipSpace r of
             [] \<Rightarrow> None
           | d # ds \<Rightarrow>
               if d = CHR '']'' then Some ([v], ds)
               else if d = CHR '','' then
                 (case parseElements n (skipSpace ds) of
                    None \<Rightarrow> None
                  | Some (vs, r1) \<Rightarrow> Some (v # vs, r1))
               else None))"
| "parseMembers 0 s = None"
| "parseMembers (Suc n) s =
     (case s of
        [] \<Rightarrow> None
      | q # cs \<Rightarrow>
          if q \<noteq> CHR 0x22 then None
          else (case scanString cs of
                  None \<Rightarrow> None
                | Some (k, r) \<Rightarrow>
                    (case skipSpace r of
                       [] \<Rightarrow> None
                     | colon # r1 \<Rightarrow>
                         if colon \<noteq> CHR '':'' then None
                         else (case parseValue n (skipSpace r1) of
                                 None \<Rightarrow> None
                               | Some (v, r2) \<Rightarrow>
                                   (case skipSpace r2 of
                                      [] \<Rightarrow> None
                                    | d # ds \<Rightarrow>
                                        if d = CHR ''}'' then Some ([(k, v)], ds)
                                        else if d = CHR '','' then
                                          (case parseMembers n (skipSpace ds) of
                                             None \<Rightarrow> None
                                           | Some (ms, r3) \<Rightarrow> Some ((k, v) # ms, r3))
                                        else None)))))"

definition parseJSON :: "string \<Rightarrow> string any option" where
  "parseJSON s =
     (case parseValue (2 * length s + 2) (skipSpace s) of
        None \<Rightarrow> None
      | Some (v, r) \<Rightarrow> if skipSpace r = [] then Some v else None)"


text \<open>Decoding into \<open>map[string]any\<close>: \<open>null\<close> leaves the \<open>nil\<close> map and is no error.\<close>

definition unmarshalPayload :: "string \<Rightarrow> (string \<times> string any) list option" where
  "unmarshalPayload s =
     (case parseJSON s of
        Some (AMap m) \<Rightarrow> Some m
      | Some ANil \<Rightarrow> Some []
      | _ \<Rightarrow> None)"

text \<open>
  Decoding into a struct goes through the members of the top-level object in order, each
  with the raw text of its value (what a \<open>json.RawMessage\<close> field receives).
\<close>

fun rawMembers :: "nat \<Rightarrow> string \<Rightarrow> (string \<times> string) list" where
  "rawMembers 0 s = []"
| "rawMembers (Suc n) s =
     (case s of
        [] \<Rightarrow> []
      | q # cs \<Rightarrow>
          (case scanString cs of
             None \<Rightarrow> []
           | Some (k, r) \<Rightarrow>
               (let r1 = skipSpace (drop 1 (skipSpace r))
                in case parseValue (2 * length r1 + 2) r1 of
                     None \<Rightarrow> []
                   | Some (v, r2) \<Rightarrow>
                       (k, take (length r1 - length r2) r1) #
                       (case skipSpace r2 of
                          [] \<Rightarrow> []
                        | d # ds \<Rightarrow> if d = CHR '','' then rawMembers n (skipSpace ds) else []))))"

datatype 'a decoded =
    Invalid
  | Mismatch
  | Null
  | Members 'a

definition topLevel :: "string \<Rightarrow> (string \<times> string) list decoded" where
  "topLevel s =
     (case parseJSON s of
        None \<Rightarrow> Invalid
      | Some (AMap m) \<Rightarrow> Members (rawMembers (length s) (skipSpace (drop 1 (skipSpace s))))
      | Some ANil \<Rightarrow> Null
      | Some _ \<Rightarrow> Mismatch)"

definition lower :: "char \<Rightarrow> char" where
  "lower c = (if 65 \<le> (of_char c :: nat) \<and> (of_char c :: nat) \<le> 90 then char_of ((of_char c :: nat) + 32) else c)"

definition names :: "string \<Rightarrow> string \<Rightarrow> bool" where
  "names k field = (map lower k = field)"

definition intLiteral :: "string \<Rightarrow> int option" where
  "intLiteral lit =
     (let ds = (case lit of c # cs \<Rightarrow> if c = CHR ''-'' then cs else lit | [] \<Rightarrow> lit);
          v = foldl (\<lambda>a d. a * 10 + int ((of_char d :: nat) - 48)) 0 ds;
          i = (if ds = lit then v else - v)
      in if ds \<noteq> [] \<and> list_all isDigit ds \<and> - (2 ^ 63) \<le> i \<and> i < 2 ^ 63 then Some i else None)"

text \<open>One member stored into the envelope; the flag records a type mismatch.\<close>

definition storeEnvelope :: "responseEnvelope \<times> bool \<Rightarrow> string \<times> string \<Rightarrow> responseEnvelope \<times> bool" where
  "storeEnvelope acc m =
     (case (acc, m) of
        ((e, bad), (k, raw)) \<Rightarrow>
          if names k ''code'' then
            (case parseJSON raw of
               Some ANil \<Rightarrow> (e, bad)
             | Some (AFloat64 lit) \<Rightarrow>
                 (case intLiteral lit of
                    Some i \<Rightarrow> (e\<lparr>Code := i\<rparr>, bad)
                  | None \<Rightarrow> (e, True))
             | _ \<Rightarrow> (e, True))
          else if names k ''reason'' then
            (case parseJSON raw of
               Some ANil \<Rightarrow> (e, bad)
             | Some (AString t) \<Rightarrow> (e\<lparr>Reason := t\<rparr>, bad)
             | _ \<Rightarrow> (e, True))
          else if names k ''msg'' then
            (case parseJSON raw of
               Some ANil \<Rightarrow> (e, bad)
             | Some (AString t) \<Rightarrow> (e\<lparr>Message := t\<rparr>, bad)
             | _ \<Rightarrow> (e, True))
          else if names k ''data'' then (e\<lparr>Data := raw\<rparr>, bad)
          else (e, bad))"

definition unmarshalEnvelope :: "string \<Rightarrow> responseEnvelope option" where
  "unmarshalEnvelope s =
     (let zero = \<lparr>Code = 0, Reason = [], Message = [], Data = []\<rparr>
      in case topLevel s of
           Invalid \<Rightarrow> None
         | Mismatch \<Rightarrow> None
         | Null \<Rightarrow> Some zero
         | Members ms \<Rightarrow>
             (case foldl storeEnvelope (zero, False) ms of
                (e, bad) \<Rightarrow> if bad then None else Some e))"

definition storeConfig :: "bool option \<times> bool \<Rightarrow> string \<times> string \<Rightarrow> bool option \<times> bool" where
  "storeConfig acc m =
     (case (acc, m) of
        ((v, bad), (k, raw)) \<Rightarrow>
          if names k ''enabled'' then
            (case parseJSON raw of
               Some ANil \<Rightarrow> (v, bad)
             | Some (ABool b) \<Rightarrow> (Some b, bad)
             | _ \<Rightarrow> (v, True))
          else (v, bad))"

definition unmarshalConfig :: "string \<Rightarrow> config_outcome" where
  "unmarshalConfig s =
     (case topLevel s of
        Invalid \<Rightarrow> SyntaxError
      | Mismatch \<Rightarrow> Decoded None True
      | Null \<Rightarrow> Decoded None False
      | Members ms \<Rightarrow> (case foldl storeConfig (None, False) ms of (v, bad) \<Rightarrow> Decoded v bad))"

subsection \<open>Writing\<close>

definition hexDigit :: "nat \<Rightarrow> char" where
  "hexDigit n = (if n < 10 then char_of (48 + n) else char_of (87 + n))"

definition escape :: "char \<Rightarrow> string" where
  "escape c =
     (let n = (of_char c :: nat)
      in if c = CHR 0x22 then [CHR 0x5C, CHR 0x22]
         else if c = CHR 0x5C then [CHR 0x5C, CHR 0x5C]
         else if c = CHR 0x0A then [CHR 0x5C, CHR ''n'']
         else if c = CHR 0x0D then [CHR 0x5C, CHR ''r'']
         else if c = CHR 0x09 then [CHR 0x5C, CHR ''t'']
         else if n < 0x20 \<or> c = CHR ''<'' \<or> c = CHR ''>'' \<or> c = CHR ''&'' then
           [CHR 0x5C, CHR ''u'', CHR ''0'', CHR ''0'', hexDigit (n div 16), hexDigit (n mod 16)]
         else [c])"

definition quote :: "string \<Rightarrow> string" where
  "quote s = CHR 0x22 # concat (map escape s) @ [CHR 0x22]"

fun showNat :: "nat \<Rightarrow> string" where
  "showNat n = (if n < 10 then [char_of (48 + n)] else showNat (n div 10) @ [char_of (48 + n mod 10)])"

declare showNat.simps [simp del]

definition showInt :: "int \<Rightarrow> string" where
  "showInt i = (if i < 0 then CHR ''-'' # showNat (nat (- i)) else showNat (nat i))"

fun lessEq :: "string \<Rightarrow> string \<Rightarrow> bool" where
  "lessEq [] ys = True"
| "lessEq (x # xs) [] = False"
| "lessEq (x # xs) (y # ys) =
     ((of_char x :: nat) < of_char y \<or> (x = y \<and> lessEq xs ys))"

fun insertMember :: "string \<times> string \<Rightarrow> (string \<times> string) list \<Rightarrow> (string \<times> string) list" where
  "insertMember m [] = [m]"
| "insertMember m (x # xs) = (if lessEq (fst m) (fst x) then m # x # xs else x # insertMember m xs)"

fun joinWith :: "string \<Rightarrow> string list \<Rightarrow> string" where
  "joinWith sep [] = []"
| "joinWith sep [x] = x"
| "joinWith sep (x # y # ys) = x @ sep @ joinWith sep (y # ys)"

text \<open>The writer: members sorted by key, no white space.\<close>

fun marshalAny :: "string any \<Rightarrow> string"
  and marshalElements :: "string any list \<Rightarrow> string list"
  and marshalMembers :: "(string \<times> string any) list \<Rightarrow> (string \<times> string) list" where
  "marshalAny ANil = ''null''"
| "marshalAny (ABool b) = (if b then ''true'' else ''false'')"
| "marshalAny (AFloat64 lit) = lit"
| "marshalAny (AString t) = quote t"
| "marshalAny (ASlice vs) = ''['' @ joinWith '','' (marshalElements vs) @ '']''"
| "marshalAny (AMap ms) =
     ''{'' @ joinWith '','' (map (\<lambda>m. quote (fst m) @ '':'' @ snd m) (foldr insertMember (marshalMembers ms) [])) @ ''}''"
| "marshalAny (AInt i) = showInt i"
| "marshalElements [] = []"
| "marshalElements (v # vs) = marshalAny v # marshalElements vs"
| "marshalMembers [] = []"
| "marshalMembers (m # ms) = (fst m, marshalAny (snd m)) # marshalMembers ms"

definition marshalPayload :: "(string \<times> string any) list \<Rightarrow> string option" where
  "marshalPayload m = Some (marshalAny (AMap m))"

text \<open>
  A raw message is written compacted: checked to be valid JSON, white space outside of
  strings dropped. The flags say whether the reader is inside a string and whether the
  last character was a backslash.
\<close>

fun squeeze :: "bool \<Rightarrow> bool \<Rightarrow> string \<Rightarrow> string" where
  "squeeze inString escaped [] = []"
| "squeeze inString escaped (c # cs) =
     (if inString then
        (if escaped then c # squeeze True False cs
         else if c = CHR 0x5C then c # squeeze True True cs
         else if c = CHR 0x22 then c # squeeze False False cs
         else (if c = CHR ''<'' \<or> c = CHR ''>'' \<or> c = CHR ''&'' then escape c else [c]) @ squeeze True False cs)
      else if isSpace c then squeeze False False cs
      else c # squeeze (c = CHR 0x22) False cs)"

definition compact :: "string \<Rightarrow> string option" where
  "compact raw = (case parseJSON raw of None \<Rightarrow> None | Some v \<Rightarrow> Some (squeeze False False raw))"

definition marshalEnvelope :: "responseEnvelope \<Rightarrow> string option" where
  "marshalEnvelope e =
     (case compact (if Data e = [] then ''null'' else Data e) of
        None \<Rightarrow> None
      | Some d \<Rightarrow>
          Some (''{'' @ quote ''code'' @ '':'' @ showInt (Code e) @ '','' @
                quote ''reason'' @ '':'' @ quote (Reason e) @ '','' @
                quote ''msg'' @ '':'' @ quote (Message e) @ '','' @
                quote ''data'' @ '':'' @ d @ ''}''))"

definition reference_json :: "string encoding_json" where
  "reference_json =
     \<lparr>unmarshal_envelope = unmarshalEnvelope,
      unmarshal_payload = unmarshalPayload,
      marshal_payload = marshalPayload,
      marshal_envelope = marshalEnvelope,
      unmarshal_config = unmarshalConfig\<rparr>"

section \<open>Concrete requests\<close>

text \<open>
  The plugin with the feature switched on and off, a request whose context carries a
  pointer to a user struct, and an anonymous request.
\<close>

definition plugin_on :: AnswerPrivate where
  "plugin_on = \<lparr>Config = Some \<lparr>Enabled = True\<rparr>\<rparr>"

definition plugin_off :: AnswerPrivate where
  "plugin_off = \<lparr>Config = Some \<lparr>Enabled = False\<rparr>\<rparr>"

definition request :: "string \<Rightarrow> string \<Rightarrow> Context" where
  "request path userID =
     \<lparr>Path = path,
      Keys = (\<lambda>k. if k = ''ctxUuidKey''
                   then Some (Pointer (Some (Struct [(''Username'', StringField ''alice''),
                                                     (''UserID'', StringField userID)])))
                   else None)\<rparr>"

definition anonymous :: "string \<Rightarrow> Context" where
  "anonymous path = \<lparr>Path = path, Keys = (\<lambda>k. None)\<rparr>"

text \<open>An answer detail owned by \<open>u1\<close>.\<close>

definition info_data :: string where
  \<open>info_data = ''{"info":{"user_info":{"id":"u1"}}}''\<close>

definition info_body :: string where
  \<open>info_body =
     ''{"code":200,"reason":"base.success","msg":"Success.","data":{"info":{"user_info":{"id":"u1"}}}}''\<close>

definition info_envelope :: responseEnvelope where
  "info_envelope =
     \<lparr>Code = 200, Reason = ''base.success'', Message = ''Success.'', Data = info_data\<rparr>"

definition info_payload :: "(string \<times> string any) list" where
  "info_payload = [(''info'', AMap [(''user_info'', AMap [(''id'', AString ''u1'')])])]"

text \<open>
  An answer page of five entries: two answers of \<open>u1\<close> (one tagged through its
  question), one of \<open>u2\<close>, an object without owner and a number.
\<close>

definition page_data :: string where
  \<open>page_data =
     ''{"count":5,"list":[{"info":{"user_info":{"id":"u1"}}},{"info":{"user_info":{"id":"u2"}}},{"title":"untagged"},7,{"question_info":{"user_info":{"id":"u1"}}}],"page":1}''\<close>

definition page_body :: string where
  \<open>page_body =
     ''{"code":200,"reason":"base.success","msg":"Success.","data":{"count":5,"list":[{"info":{"user_info":{"id":"u1"}}},{"info":{"user_info":{"id":"u2"}}},{"title":"untagged"},7,{"question_info":{"user_info":{"id":"u1"}}}],"page":1}}''\<close>

definition page_envelope :: responseEnvelope where
  "page_envelope =
     \<lparr>Code = 200, Reason = ''base.success'', Message = ''Success.'', Data = page_data\<rparr>"

definition page_list :: "string any list" where
  "page_list =
     [AMap [(''info'', AMap [(''user_info'', AMap [(''id'', AString ''u1'')])])],
      AMap [(''info'', AMap [(''user_info'', AMap [(''id'', AString ''u2'')])])],
      AMap [(''title'', AString ''untagged'')],
      AFloat64 ''7'',
      AMap [(''question_info'', AMap [(''user_info'', AMap [(''id'', AString ''u1'')])])]]"

definition page_payload :: "(string \<times> string any) list" where
  "page_payload =
     [(''count'', AFloat64 ''5''), (''list'', ASlice page_list), (''page'', AFloat64 ''1'')]"

definition page_kept :: "string any list" where
  "page_kept =
     [AMap [(''info'', AMap [(''user_info'', AMap [(''id'', AString ''u1'')])])],
      AMap [(''question_info'', AMap [(''user_info'', AMap [(''id'', AString ''u1'')])])]]"

definition page_narrowed :: "(string \<times> string any) list" where
  "page_narrowed =
     [(''count'', AInt 2), (''list'', ASlice page_kept), (''page'', AFloat64 ''1'')]"

definition page_narrowed_data :: string where
  \<open>page_narrowed_data =
     ''{"count":2,"list":[{"info":{"user_info":{"id":"u1"}}},{"question_info":{"user_info":{"id":"u1"}}}],"page":1}''\<close>

definition page_narrowed_body :: string where
  \<open>page_narrowed_body =
     ''{"code":200,"reason":"base.success","msg":"Success.","data":{"count":2,"list":[{"info":{"user_info":{"id":"u1"}}},{"question_info":{"user_info":{"id":"u1"}}}],"page":1}}''\<close>

text \<open>An answer detail whose data is an array.\<close>

definition array_body :: string where
  \<open>array_body = ''{"code":200,"reason":"base.success","msg":"Success.","data":[1,2]}''\<close>

definition array_envelope :: responseEnvelope where
  "array_envelope =
     \<lparr>Code = 200, Reason = ''base.success'', Message = ''Success.'', Data = ''[1,2]''\<rparr>"

section \<open>Properties of the filters and of the middleware\<close>

lemma extractUserIDFromInfo_spec: "extractUserIDFromInfo x = ownerInside x"
  by (simp add: extractUserIDFromInfo_def ownerInside_def nestedObject_def stringValue_def
      split: option.splits any.splits)

lemma visibleTo_simps:
  "visibleTo userID (AMap entry) =
     ((extractAnswerOwnerID entry \<noteq> [] \<or> extractQuestionOwnerID entry \<noteq> []) \<and>
      (extractAnswerOwnerID entry = userID \<or> extractQuestionOwnerID entry = userID))"
  "visibleTo userID ANil = False"
  "visibleTo userID (ABool t) = False"
  "visibleTo userID (AFloat64 f) = False"
  "visibleTo userID (AString s) = False"
  "visibleTo userID (ASlice vs) = False"
  "visibleTo userID (AInt i) = False"
  by (simp_all add: visibleTo_def)

lemma filterItems_filter:
  "filterItems userID items filtered =
     filtered @ filter (visibleTo userID) items"
proof (induction items arbitrary: filtered)
  case Nil
  show ?case by simp
next
  case (Cons item rest)
  show ?case
    by (cases item) (simp_all add: Cons.IH visibleTo_simps Let_def)
qed

lemma paths_differ: "pathAnswerList \<noteq> pathAnswerInfo"
  by (simp add: pathAnswerList_def pathAnswerInfo_def)

lemma middleware_intercepts:
  assumes "intercepts a ctx userID"
  shows "answerVisibilityMiddleware lib a ctx handler =
           (case filterAnswerResponse lib (Path ctx) userID (body (capture handler)) of
              (filtered, newStatus, changed) \<Rightarrow>
                if changed
                then Inr [WriteHeader (if newStatus \<noteq> 0 then newStatus else statusCode (capture handler)),
                          Write filtered]
                else Inr [WriteHeader (statusCode (capture handler)), Write (body (capture handler))])"
proof -
  from assms obtain c where c: "Config a = Some c" "Enabled c"
    by (auto simp: intercepts_def split: option.splits)
  from assms have p: "Path ctx = pathAnswerInfo \<or> Path ctx = pathAnswerList"
    and u: "userIDFromContext ctx = Inr userID" "userID \<noteq> []"
    by (simp_all add: intercepts_def)
  show ?thesis
    using c p u
    by (auto simp: answerVisibilityMiddleware_def Let_def writeResponse_def split: prod.splits)
qed

lemma filter_info_blocks:
  assumes "unmarshal_payload lib (Data envelope) = Some payload"
    and "extractAnswerOwnerID payload \<noteq> [] \<or> extractQuestionOwnerID payload \<noteq> []"
    and "extractAnswerOwnerID payload \<noteq> userID"
    and "extractQuestionOwnerID payload \<noteq> userID"
    and "marshal_envelope lib forbidden = Some out"
  shows "filterAnswerInfo lib envelope userID = (out, StatusForbidden, True)"
  using assms by (auto simp: filterAnswerInfo_def Let_def)

lemma filter_response_unfold:
  assumes "b \<noteq> []" "unmarshal_envelope lib b = Some envelope"
    "Data envelope \<noteq> []" "Data envelope \<noteq> ''null''"
  shows "filterAnswerResponse lib pathAnswerInfo userID b = filterAnswerInfo lib envelope userID"
    and "filterAnswerResponse lib pathAnswerList userID b = filterAnswerList lib envelope userID"
  using assms by (simp_all add: filterAnswerResponse_def paths_differ)

lemma filter_list_narrows:
  assumes "unmarshal_payload lib (Data envelope) = Some payload"
    and "map_of payload ''list'' = Some (ASlice list)"
    and "marshal_payload lib (narrowed userID payload list) = Some payloadBytes"
    and "marshal_envelope lib (envelope\<lparr>Data := payloadBytes\<rparr>) = Some out"
  shows "filterAnswerList lib envelope userID = (out, 0, True)"
  using assms by (simp add: filterAnswerList_def narrowed_def Let_def filterItems_filter)





lemma visibleTo_ownedBy: "userID \<noteq> [] \<Longrightarrow> visibleTo userID item = ownedBy userID item"
  by (auto simp: visibleTo_def ownedBy_def split: any.splits)

lemma filterItems_visible: "filterItems userID items [] = filter (visibleTo userID) items"
  by (simp add: filterItems_filter)

lemma middleware_unchanged:
  assumes "intercepts a ctx userID \<and> Path ctx = path \<and> body (capture handler) = b"
    and "filterAnswerResponse lib path userID b = (filtered, newStatus, False)"
  shows "answerVisibilityMiddleware lib a ctx handler =
           Inr [WriteHeader (statusCode (capture handler)), Write b]"
proof -
  from assms(1) have i: "intercepts a ctx userID" by simp
  from assms have "filterAnswerResponse lib (Path ctx) userID (body (capture handler)) =
                     (filtered, newStatus, False)"
    by simp
  with assms(1) show ?thesis
    by (simp add: middleware_intercepts [OF i])
qed

lemma middleware_changed:
  assumes "intercepts a ctx userID \<and> Path ctx = path \<and> body (capture handler) = b"
    and "filterAnswerResponse lib path userID b = (filtered, newStatus, True)"
  shows "answerVisibilityMiddleware lib a ctx handler =
           Inr [WriteHeader (if newStatus \<noteq> 0 then newStatus else statusCode (capture handler)),
                Write filtered]"
proof -
  from assms(1) have i: "intercepts a ctx userID" by simp
  from assms have "filterAnswerResponse lib (Path ctx) userID (body (capture handler)) =
                     (filtered, newStatus, True)"
    by simp
  then show ?thesis
    by (simp add: middleware_intercepts [OF i])
qed

section \<open>The concrete requests, evaluated\<close>

lemma request_intercepted:
  "intercepts plugin_on (request pathAnswerInfo ''u1'') ''u1''"
  "intercepts plugin_on (request pathAnswerInfo ''u2'') ''u2''"
  "intercepts plugin_on (request pathAnswerInfo ''u3'') ''u3''"
  "intercepts plugin_on (request pathAnswerList ''u1'') ''u1''"
  by code_simp+

lemma request_path: "Path (request path userID) = path"
  by (simp add: request_def)

lemma captured_body:
  "body (capture [WriteHeader st, Write b]) = b"
  "body (capture [Write b]) = b"
  "body (capture [WriteHeader st]) = []"
  by (simp_all add: capture_def newResponseRecorder_def)

lemma captured_status:
  "statusCode (capture [WriteHeader 200, Write b]) = 200"
  "statusCode (capture [Write b]) = 200"
  "statusCode (capture [WriteHeader 204]) = 204"
  by (simp_all add: capture_def newResponseRecorder_def statusCode_def StatusOK_def)

lemma info_decodes:
  "info_body \<noteq> []"
  "unmarshal_envelope reference_json info_body = Some info_envelope"
  "Data info_envelope \<noteq> []"
  "Data info_envelope \<noteq> ''null''"
  "unmarshal_payload reference_json (Data info_envelope) = Some info_payload"
  by code_simp+

lemma info_owners:
  "extractAnswerOwnerID info_payload = ''u1''"
  "extractQuestionOwnerID info_payload = []"
  by code_simp+

lemma forbidden_encodes: "marshal_envelope reference_json forbidden = Some forbidden_body"
  by code_simp

lemma forbidden_decodes: "unmarshal_envelope reference_json forbidden_body = Some forbidden"
  by code_simp

lemma page_decodes:
  "page_body \<noteq> []"
  "unmarshal_envelope reference_json page_body = Some page_envelope"
  "Data page_envelope \<noteq> []"
  "Data page_envelope \<noteq> ''null''"
  "unmarshal_payload reference_json (Data page_envelope) = Some page_payload"
  "map_of page_payload ''list'' = Some (ASlice page_list)"
  by code_simp+

lemma page_narrows:
  "page_kept = filter (visibleTo ''u1'') page_list"
  "page_narrowed = AList.update ''count'' (AInt (int (length page_kept)))
                     (AList.update ''list'' (ASlice page_kept) page_payload)"
  "marshal_payload reference_json page_narrowed = Some page_narrowed_data"
  "marshal_envelope reference_json (page_envelope\<lparr>Data := page_narrowed_data\<rparr>) =
     Some page_narrowed_body"
  by code_simp+

section \<open>The claims\<close>

text \<open>
  Claim C1 (blocking). On the answer detail endpoint, when the envelope's data decodes as
  an object from which an answer owner or a question owner can be extracted and neither
  of the two is the caller, the filter reports a change with status 403 and the body is
  the encoding of the forbidden envelope, the fixed bytes \<^const>\<open>forbidden_body\<close>
  (the hypothesis on \<open>marshal_envelope\<close> says that the library encodes the struct
  as those bytes and returns no error). An intercepted request is then answered by 403
  and that body.
\<close>

theorem C1_blocking:
  assumes "b \<noteq> []"
    and "unmarshal_envelope lib b = Some envelope"
    and "Data envelope \<noteq> []"
    and "Data envelope \<noteq> ''null''"
    and "unmarshal_payload lib (Data envelope) = Some payload"
    and "extractAnswerOwnerID payload \<noteq> [] \<or> extractQuestionOwnerID payload \<noteq> []"
    and "extractAnswerOwnerID payload \<noteq> userID"
    and "extractQuestionOwnerID payload \<noteq> userID"
    and "marshal_envelope lib forbidden = Some forbidden_body"
  shows "filterAnswerResponse lib pathAnswerInfo userID b = (forbidden_body, 403, True) \<and>
         (intercepts a ctx userID \<and> Path ctx = pathAnswerInfo \<and> body (capture handler) = b \<longrightarrow>
            answerVisibilityMiddleware lib a ctx handler =
              Inr [WriteHeader 403, Write forbidden_body])"
proof -
  have "filterAnswerInfo lib envelope userID = (forbidden_body, StatusForbidden, True)"
    using assms(5-9) by (rule filter_info_blocks)
  with assms(1-4) have r: "filterAnswerResponse lib pathAnswerInfo userID b = (forbidden_body, 403, True)"
    by (simp add: filter_response_unfold(1) StatusForbidden_def)
  show ?thesis
  proof (intro conjI impI)
    show "filterAnswerResponse lib pathAnswerInfo userID b = (forbidden_body, 403, True)"
      by (fact r)
  next
    assume h: "intercepts a ctx userID \<and> Path ctx = pathAnswerInfo \<and> body (capture handler) = b"
    from middleware_changed [OF h r]
    show "answerVisibilityMiddleware lib a ctx handler =
            Inr [WriteHeader 403, Write forbidden_body]"
      by simp
  qed
qed

theorem C1_blocking_witness:
  "filterAnswerResponse reference_json pathAnswerInfo ''u2'' info_body = (forbidden_body, 403, True) \<and>
   answerVisibilityMiddleware reference_json plugin_on (request pathAnswerInfo ''u2'')
     [WriteHeader 200, Write info_body] = Inr [WriteHeader 403, Write forbidden_body]"
proof -
  have o: "extractAnswerOwnerID info_payload \<noteq> [] \<or> extractQuestionOwnerID info_payload \<noteq> []"
    "extractAnswerOwnerID info_payload \<noteq> ''u2''"
    "extractQuestionOwnerID info_payload \<noteq> ''u2''"
    by (simp_all add: info_owners)
  show ?thesis
    using C1_blocking [OF info_decodes o forbidden_encodes,
        where a = plugin_on and ctx = "request pathAnswerInfo ''u2''"
          and handler = "[WriteHeader 200, Write info_body]"]
    by (simp add: request_intercepted request_path captured_body)
qed

text \<open>
  Claim C2 (list narrowing). On the answer page endpoint, when the envelope's data
  decodes as an object whose \<open>list\<close> is an array and the two encoding calls return
  no error, the data object encoded into the output has as \<open>list\<close> the entries kept
  by filtering the input list in order, and as \<open>count\<close> their number. An entry is
  kept exactly when it is an object, some owner can be extracted from it, and its answer
  owner or question owner is the caller; for a caller with a non-empty identity (the only
  ones for which the middleware runs the filter) the second condition follows from the
  third.
\<close>

theorem C2_list_invariant:
  assumes "b \<noteq> []"
    and "unmarshal_envelope lib b = Some envelope"
    and "Data envelope \<noteq> []"
    and "Data envelope \<noteq> ''null''"
    and "unmarshal_payload lib (Data envelope) = Some payload"
    and "map_of payload ''list'' = Some (ASlice list)"
    and "kept = filter (visibleTo userID) list"
    and "payload' = AList.update ''count'' (AInt (int (length kept)))
                      (AList.update ''list'' (ASlice kept) payload)"
    and "marshal_payload lib payload' = Some payloadBytes"
    and "marshal_envelope lib (envelope\<lparr>Data := payloadBytes\<rparr>) = Some out"
  shows "filterAnswerResponse lib pathAnswerList userID b = (out, 0, True) \<and>
         map_of payload' ''list'' = Some (ASlice kept) \<and>
         map_of payload' ''count'' = Some (AInt (int (length kept))) \<and>
         subseq kept list \<and>
         (\<forall>item \<in> set list. item \<in> set kept \<longleftrightarrow>
            (\<exists>entry. item = AMap entry \<and>
               (extractAnswerOwnerID entry \<noteq> [] \<or> extractQuestionOwnerID entry \<noteq> []) \<and>
               (extractAnswerOwnerID entry = userID \<or> extractQuestionOwnerID entry = userID))) \<and>
         (userID \<noteq> [] \<longrightarrow> kept = filter (ownedBy userID) list)"
proof -
  have n: "narrowed userID payload list = payload'"
    by (simp add: narrowed_def Let_def assms(7,8))
  have "filterAnswerList lib envelope userID = (out, 0, True)"
    using assms(5,6) assms(9,10) [folded n] by (rule filter_list_narrows)
  with assms(1-4) have r: "filterAnswerResponse lib pathAnswerList userID b = (out, 0, True)"
    by (simp add: filter_response_unfold(2))
  have l: "map_of payload' ''list'' = Some (ASlice kept)"
    by (simp add: assms(8) update_conv')
  have c: "map_of payload' ''count'' = Some (AInt (int (length kept)))"
    by (simp add: assms(8) update_conv')
  have s: "subseq kept list"
    by (simp add: assms(7))
  have m: "\<forall>item \<in> set list. item \<in> set kept \<longleftrightarrow>
            (\<exists>entry. item = AMap entry \<and>
               (extractAnswerOwnerID entry \<noteq> [] \<or> extractQuestionOwnerID entry \<noteq> []) \<and>
               (extractAnswerOwnerID entry = userID \<or> extractQuestionOwnerID entry = userID))"
    by (auto simp: assms(7) visibleTo_def split: any.splits)
  have u: "userID \<noteq> [] \<longrightarrow> kept = filter (ownedBy userID) list"
  proof
    assume "userID \<noteq> []"
    then have "visibleTo userID = (ownedBy userID :: 'a any \<Rightarrow> bool)"
      by (simp add: fun_eq_iff visibleTo_ownedBy)
    then show "kept = filter (ownedBy userID) list"
      by (simp add: assms(7))
  qed
  from r l c s m u show ?thesis by blast
qed

theorem C2_list_invariant_witness:
  "filterAnswerResponse reference_json pathAnswerList ''u1'' page_body =
     (page_narrowed_body, 0, True) \<and>
   map_of page_narrowed ''count'' = Some (AInt 2) \<and>
   subseq page_kept page_list \<and>
   page_kept = filter (ownedBy ''u1'') page_list"
proof -
  have n: "int (length page_kept) = 2"
    by (simp add: page_kept_def)
  show ?thesis
    using C2_list_invariant [OF page_decodes page_narrows] n by simp
qed

text \<open>
  Claim C3 (pass-through). On either endpoint and for every caller: if decoding the
  envelope returns an error, or its data is empty or the literal \<open>null\<close>, or the
  data does not decode as an object, the filter reports no change, and an intercepted
  request is answered by the captured status and the captured bytes.
\<close>

theorem C3_pass_through:
  assumes "path = pathAnswerInfo \<or> path = pathAnswerList"
    and "unmarshal_envelope lib b = None \<or>
         (\<exists>envelope. unmarshal_envelope lib b = Some envelope \<and>
            (Data envelope = [] \<or> Data envelope = ''null'' \<or>
             unmarshal_payload lib (Data envelope) = None))"
  shows "filterAnswerResponse lib path userID b = ([], 0, False) \<and>
         (intercepts a ctx userID \<and> Path ctx = path \<and> body (capture handler) = b \<longrightarrow>
            answerVisibilityMiddleware lib a ctx handler =
              Inr [WriteHeader (statusCode (capture handler)), Write b])"
proof -
  have r: "filterAnswerResponse lib path userID b = ([], 0, False)"
    using assms
    by (auto simp: filterAnswerResponse_def filterAnswerInfo_def filterAnswerList_def)
  show ?thesis
  proof (intro conjI impI)
    show "filterAnswerResponse lib path userID b = ([], 0, False)"
      by (fact r)
  next
    assume h: "intercepts a ctx userID \<and> Path ctx = path \<and> body (capture handler) = b"
    from h r show "answerVisibilityMiddleware lib a ctx handler =
                     Inr [WriteHeader (statusCode (capture handler)), Write b]"
      by (rule middleware_unchanged)
  qed
qed

theorem C3_pass_through_witness:
  "filterAnswerResponse reference_json pathAnswerList ''u1'' ''not json'' = ([], 0, False) \<and>
   answerVisibilityMiddleware reference_json plugin_on (request pathAnswerList ''u1'')
     [Write ''not json''] = Inr [WriteHeader 200, Write ''not json''] \<and>
   filterAnswerResponse reference_json pathAnswerInfo ''u2'' array_body = ([], 0, False)"
proof -
  have p: "pathAnswerList = pathAnswerInfo \<or> pathAnswerList = pathAnswerList"
    "pathAnswerInfo = pathAnswerInfo \<or> pathAnswerInfo = pathAnswerList"
    by simp_all
  have n: "unmarshal_envelope reference_json ''not json'' = None"
    by code_simp
  have e: "unmarshal_envelope reference_json array_body = Some array_envelope"
    "unmarshal_payload reference_json (Data array_envelope) = None"
    by code_simp+
  then have d: "unmarshal_envelope reference_json array_body = None \<or>
         (\<exists>envelope. unmarshal_envelope reference_json array_body = Some envelope \<and>
            (Data envelope = [] \<or> Data envelope = ''null'' \<or>
             unmarshal_payload reference_json (Data envelope) = None))"
    by simp
  show ?thesis
    using C3_pass_through [OF p(1) disjI1 [OF n],
        where a = plugin_on and ctx = "request pathAnswerList ''u1''"
          and handler = "[Write ''not json'']" and userID = "''u1''"]
      C3_pass_through [OF p(2) d, where userID = "''u2''"]
    by (simp add: request_intercepted request_path captured_body captured_status)
qed

text \<open>
  Claim C4 (self-ownership). On the answer detail endpoint, when the data decodes as an
  object whose answer owner or question owner is the caller, the filter reports no
  change, and an intercepted request is answered by the captured status and bytes.
\<close>

theorem C4_self_ownership:
  assumes "unmarshal_envelope lib b = Some envelope"
    and "unmarshal_payload lib (Data envelope) = Some payload"
    and "extractAnswerOwnerID payload = userID \<or> extractQuestionOwnerID payload = userID"
  shows "filterAnswerInfo lib envelope userID = ([], 0, False) \<and>
         filterAnswerResponse lib pathAnswerInfo userID b = ([], 0, False) \<and>
         (intercepts a ctx userID \<and> Path ctx = pathAnswerInfo \<and> body (capture handler) = b \<longrightarrow>
            answerVisibilityMiddleware lib a ctx handler =
              Inr [WriteHeader (statusCode (capture handler)), Write b])"
proof -
  have i: "filterAnswerInfo lib envelope userID = ([], 0, False)"
    using assms(2,3) by (auto simp: filterAnswerInfo_def Let_def)
  have r: "filterAnswerResponse lib pathAnswerInfo userID b = ([], 0, False)"
    using assms(1) i by (simp add: filterAnswerResponse_def)
  show ?thesis
  proof (intro conjI impI)
    show "filterAnswerInfo lib envelope userID = ([], 0, False)" by (fact i)
    show "filterAnswerResponse lib pathAnswerInfo userID b = ([], 0, False)" by (fact r)
  next
    assume h: "intercepts a ctx userID \<and> Path ctx = pathAnswerInfo \<and> body (capture handler) = b"
    from h r show "answerVisibilityMiddleware lib a ctx handler =
                     Inr [WriteHeader (statusCode (capture handler)), Write b]"
      by (rule middleware_unchanged)
  qed
qed

theorem C4_self_ownership_witness:
  "filterAnswerResponse reference_json pathAnswerInfo ''u1'' info_body = ([], 0, False) \<and>
   answerVisibilityMiddleware reference_json plugin_on (request pathAnswerInfo ''u1'')
     [WriteHeader 200, Write info_body] = Inr [WriteHeader 200, Write info_body]"
proof -
  have o: "extractAnswerOwnerID info_payload = ''u1'' \<or> extractQuestionOwnerID info_payload = ''u1''"
    by (simp add: info_owners)
  show ?thesis
    using C4_self_ownership [OF info_decodes(2) info_decodes(5) o,
        where a = plugin_on and ctx = "request pathAnswerInfo ''u1''"
          and handler = "[WriteHeader 200, Write info_body]"]
    by (simp add: request_intercepted request_path captured_body captured_status)
qed

text \<open>
  Claim C5 (bypass). If the plugin has no configuration or the feature is disabled, or
  the path is neither of the two endpoints, or the identity lookup yields the empty
  string, the middleware does not intercept: the calls that reach the real writer are
  the handler's own.
\<close>

theorem C5_bypass:
  assumes "Config a = None \<or> (\<exists>c. Config a = Some c \<and> \<not> Enabled c) \<or>
           (Path ctx \<noteq> pathAnswerInfo \<and> Path ctx \<noteq> pathAnswerList) \<or>
           userIDFromContext ctx = Inr []"
  shows "answerVisibilityMiddleware lib a ctx handler = Inr handler"
  using assms
  by (auto simp: answerVisibilityMiddleware_def split: option.splits)

theorem C5_bypass_witness:
  "answerVisibilityMiddleware reference_json plugin_off (request pathAnswerInfo ''u2'')
     [WriteHeader 200, Write info_body] = Inr [WriteHeader 200, Write info_body] \<and>
   answerVisibilityMiddleware reference_json plugin_on (request ''/answer/api/v1/answer/info/'' ''u2'')
     [WriteHeader 200, Write info_body] = Inr [WriteHeader 200, Write info_body] \<and>
   answerVisibilityMiddleware reference_json plugin_on (anonymous pathAnswerInfo)
     [WriteHeader 200, Write info_body] = Inr [WriteHeader 200, Write info_body]"
proof -
  have off: "\<exists>c. Config plugin_off = Some c \<and> \<not> Enabled c"
    by (simp add: plugin_off_def)
  have other: "Path (request ''/answer/api/v1/answer/info/'' ''u2'') \<noteq> pathAnswerInfo \<and>
               Path (request ''/answer/api/v1/answer/info/'' ''u2'') \<noteq> pathAnswerList"
    by (simp add: request_path pathAnswerInfo_def pathAnswerList_def)
  have anon: "userIDFromContext (anonymous pathAnswerInfo) = Inr []"
    by (simp add: userIDFromContext_def anonymous_def)
  show ?thesis
    using C5_bypass [where a = plugin_off and ctx = "request pathAnswerInfo ''u2''"
          and lib = reference_json and handler = "[WriteHeader 200, Write info_body]"]
      C5_bypass [where a = plugin_on and ctx = "request ''/answer/api/v1/answer/info/'' ''u2''"
          and lib = reference_json and handler = "[WriteHeader 200, Write info_body]"]
      C5_bypass [where a = plugin_on and ctx = "anonymous pathAnswerInfo"
          and lib = reference_json and handler = "[WriteHeader 200, Write info_body]"]
      off other anon
    by blast
qed

text \<open>
  Claim C6 (ownership extraction). The three extractors of the source compute what the
  specification describes: the owner inside \<open>x\<close> is the string \<open>id\<close> of the
  nested object \<open>user_info\<close> and is empty otherwise; the answer owner is looked for
  inside the nested object \<open>info\<close> when there is one, else inside the node itself;
  the question owner inside the nested object \<open>question\<close>, else inside
  \<open>question_info\<close>, else it is empty.
\<close>

theorem C6_extractors:
  "extractUserIDFromInfo x = ownerInside x \<and>
   extractAnswerOwnerID node = spec_extractAnswerOwner node \<and>
   extractQuestionOwnerID node = spec_extractQuestionOwner node"
  by (simp add: extractUserIDFromInfo_spec extractAnswerOwnerID_def extractQuestionOwnerID_def
      spec_extractAnswerOwner_def spec_extractQuestionOwner_def nestedObject_def
      split: option.splits any.splits)

theorem C6_extractors_witness:
  "extractUserIDFromInfo [(''user_info'', AMap [(''id'', AString ''u1'')])] = ''u1'' \<and>
   extractAnswerOwnerID info_payload = ''u1'' \<and>
   extractQuestionOwnerID info_payload = []"
proof -
  have s: "ownerInside [(''user_info'', AMap [(''id'', AString ''u1'')])] = ''u1''"
    "spec_extractAnswerOwner info_payload = ''u1''"
    "spec_extractQuestionOwner info_payload = []"
    by code_simp+
  show ?thesis
    using C6_extractors [of "[(''user_info'', AMap [(''id'', AString ''u1'')])]" info_payload]
    by (simp only: s)
qed



text \<open>
  Claim C8 (idempotence). If the answer detail filter replaced a response, its output is
  the encoding of the forbidden envelope with status 403; the library reads the data of
  that output back as \<open>null\<close>, so filtering the output again, for any caller,
  reports no change, and an intercepted request carrying it is forwarded as captured.
\<close>

theorem C8_idempotence:
  assumes "filterAnswerResponse lib pathAnswerInfo userID b = (out, newStatus, True)"
    and "\<And>e. unmarshal_envelope lib out = Some e \<Longrightarrow> Data e = ''null''"
  shows "marshal_envelope lib forbidden = Some out \<and> newStatus = 403 \<and>
         filterAnswerResponse lib pathAnswerInfo caller out = ([], 0, False) \<and>
         (intercepts a ctx caller \<and> Path ctx = pathAnswerInfo \<and> body (capture handler) = out \<longrightarrow>
            answerVisibilityMiddleware lib a ctx handler =
              Inr [WriteHeader (statusCode (capture handler)), Write out])"
proof -
  from assms(1) obtain envelope where
    "filterAnswerInfo lib envelope userID = (out, newStatus, True)"
    by (auto simp: filterAnswerResponse_def split: if_splits option.splits)
  then have m: "marshal_envelope lib forbidden = Some out" and s: "newStatus = 403"
    by (auto simp: filterAnswerInfo_def Let_def StatusForbidden_def split: option.splits if_splits)
  have r: "filterAnswerResponse lib pathAnswerInfo caller out = ([], 0, False)"
    using assms(2) by (auto simp: filterAnswerResponse_def split: option.splits)
  have "intercepts a ctx caller \<and> Path ctx = pathAnswerInfo \<and> body (capture handler) = out \<longrightarrow>
          answerVisibilityMiddleware lib a ctx handler =
            Inr [WriteHeader (statusCode (capture handler)), Write out]"
  proof
    assume h: "intercepts a ctx caller \<and> Path ctx = pathAnswerInfo \<and> body (capture handler) = out"
    from h r show "answerVisibilityMiddleware lib a ctx handler =
                     Inr [WriteHeader (statusCode (capture handler)), Write out]"
      by (rule middleware_unchanged)
  qed
  with m s r show ?thesis by simp
qed

theorem C8_idempotence_witness:
  "filterAnswerResponse reference_json pathAnswerInfo ''u3'' forbidden_body = ([], 0, False) \<and>
   answerVisibilityMiddleware reference_json plugin_on (request pathAnswerInfo ''u3'')
     [WriteHeader 403, Write forbidden_body] = Inr [WriteHeader 403, Write forbidden_body]"
proof -
  have r: "filterAnswerResponse reference_json pathAnswerInfo ''u2'' info_body =
             (forbidden_body, 403, True)"
    by code_simp
  have d: "\<And>e. unmarshal_envelope reference_json forbidden_body = Some e \<Longrightarrow> Data e = ''null''"
    by (simp add: forbidden_decodes forbidden_def)
  have s: "statusCode (capture [WriteHeader 403, Write forbidden_body]) = 403"
    by (simp add: capture_def newResponseRecorder_def statusCode_def)
  show ?thesis
    using C8_idempotence [OF r d, where caller = "''u3''" and a = plugin_on
          and ctx = "request pathAnswerInfo ''u3''"
          and handler = "[WriteHeader 403, Write forbidden_body]"] s
    by (simp add: request_intercepted request_path captured_body)
qed

text \<open>
  Claim C9 (empty body). For every path and caller the filter reports no change on the
  empty body, and an intercepted request whose handler wrote no bytes is answered by the
  captured status and the empty body.
\<close>

theorem C9_empty_body:
  "filterAnswerResponse lib path userID [] = ([], 0, False) \<and>
   (intercepts a ctx userID \<and> body (capture handler) = [] \<longrightarrow>
      answerVisibilityMiddleware lib a ctx handler =
        Inr [WriteHeader (statusCode (capture handler)), Write []])"
proof (intro conjI impI)
  show "filterAnswerResponse lib path userID [] = ([], 0, False)"
    by (simp add: filterAnswerResponse_def)
next
  assume h: "intercepts a ctx userID \<and> body (capture handler) = []"
  then have i: "intercepts a ctx userID \<and> Path ctx = Path ctx \<and> body (capture handler) = []"
    by simp
  have "filterAnswerResponse lib (Path ctx) userID [] = ([], 0, False)"
    by (simp add: filterAnswerResponse_def)
  with i show "answerVisibilityMiddleware lib a ctx handler =
                 Inr [WriteHeader (statusCode (capture handler)), Write []]"
    by (rule middleware_unchanged)
qed

theorem C9_empty_body_witness:
  "answerVisibilityMiddleware reference_json plugin_on (request pathAnswerInfo ''u1'')
     [WriteHeader 204] = Inr [WriteHeader 204, Write []]"
  using C9_empty_body [where a = plugin_on and ctx = "request pathAnswerInfo ''u1''"
        and handler = "[WriteHeader 204]" and userID = "''u1''" and lib = reference_json]
  by (simp add: request_intercepted captured_body captured_status)

text \<open>
  Claim C10 (configuration). \<open>ConfigReceiver\<close> returns \<open>nil\<close> on every input,
  and when the input is not valid JSON or stores nothing into \<open>Enabled\<close>, the
  stored configuration has the feature enabled.
\<close>

theorem C10_config_receiver:
  "snd (ConfigReceiver lib config a) = None \<and>
   (unmarshal_config lib config = SyntaxError \<or>
    (\<exists>typeError. unmarshal_config lib config = Decoded None typeError) \<longrightarrow>
      Config (fst (ConfigReceiver lib config a)) = Some \<lparr>Enabled = True\<rparr>)"
  by (auto simp: ConfigReceiver_def Let_def)

theorem C10_config_receiver_witness:
  "snd (ConfigReceiver reference_json ''{'' plugin_off) = None \<and>
   Config (fst (ConfigReceiver reference_json ''{'' plugin_off)) = Some \<lparr>Enabled = True\<rparr> \<and>
   Config (fst (ConfigReceiver reference_json ''{}'' plugin_off)) = Some \<lparr>Enabled = True\<rparr>"
proof -
  have m: "unmarshal_config reference_json ''{'' = SyntaxError"
    by code_simp
  have "unmarshal_config reference_json ''{}'' = Decoded None False"
    by code_simp
  then have o: "\<exists>typeError. unmarshal_config reference_json ''{}'' = Decoded None typeError"
    by (rule exI)
  show ?thesis
    using C10_config_receiver [of reference_json "''{''" plugin_off]
      C10_config_receiver [of reference_json "''{}''" plugin_off] m o
    by blast
qed

end
